theory Spec2Isabelle
  imports Main
begin

section \<open>The Matrix daemon of jfa-go (matrix.go)\<close>

text \<open>
  The daemon keeps three Go maps (\<open>tokens\<close>, \<open>languages\<close>, \<open>isEncrypted\<close>), reads
  the application's storage through \<open>d.app\<close>, and talks to the homeserver through
  \<open>d.bot\<close>. The maps are partial functions here. Every call that leaves matrix.go
  (the mautrix client, the crypto helpers of the e2ee build, the logger, standard
  output, the storage writer, the PIN generator) is appended to a chronological list
  of \<open>action\<close>s, and its answer is read from an \<open>env\<close> record whose functions see the
  list of actions performed so far. A Go \<open>error\<close> is its message; \<open>nil\<close> is \<open>None\<close>.
\<close>

subsection \<open>Data\<close>

type_synonym error = string

record MatrixUser =
  RoomID :: string
  Encrypted :: bool
  UserID :: string
  Lang :: string
  Contact :: bool

text \<open>
  \<open>UnverifiedUser.User\<close> is a pointer to a \<open>MatrixUser\<close> allocated by \<open>SendStart\<close>;
  matrix.go never writes through it, so the record holds the pointee.
\<close>

record UnverifiedUser =
  Verified :: bool
  User :: MatrixUser

text \<open>
  A value of Go's \<open>interface{}\<close> as the JSON decoder produces it. Only the
  difference between a string and anything else is observed by matrix.go.
\<close>

datatype dyn =
    DNil
  | DBool bool
  | DNumber int
  | DString string
  | DArray "dyn list"
  | DObject "(string \<times> dyn) list"

text \<open>The fields of \<open>event.Event\<close> that \<open>handleMessage\<close> and \<open>commandLang\<close> read.\<close>

record Event =
  Timestamp :: int
  Sender :: string
  evt_RoomID :: string
  Content_Raw :: "string \<rightharpoonup> dyn"

record MessageEventContent =
  MsgType :: string
  Body :: string
  FormattedBody :: string
  Format :: string

text \<open>The two fields of the application's \<open>Message\<close> that \<open>Send\<close> reads.\<close>

record Message =
  Text :: string
  Markdown :: string

record ReqCreateRoom =
  Visibility :: string
  Invite :: "string list"
  Topic :: string
  IsDirect :: bool

text \<open>
  One entry of \<open>app.storage.lang.Telegram\<close>. A key that is missing from a Go map
  reads as the zero value, \<open>zero_telegramLang\<close>.
\<close>

record telegramLang =
  Meta_Name :: string
  Strings :: "string \<rightharpoonup> string"

definition zero_telegramLang :: telegramLang where
  "zero_telegramLang = \<lparr>Meta_Name = [], Strings = Map.empty\<rparr>"

text \<open>
  The part of \<open>appContext\<close> the daemon reaches. \<open>storage_lang_Telegram\<close> is an
  association list: \<open>map_of\<close> is the lookup, and the order of the list stands for the
  order in which \<open>range\<close> happens to visit the map.
\<close>

record appContext =
  storage_matrix :: "string \<rightharpoonup> MatrixUser"
  storage_lang_Telegram :: "(string \<times> telegramLang) list"
  config_matrix_topic :: string

datatype chan = Open | Closed

text \<open>
  \<open>MatrixDaemon\<close> without its handles to the outside (\<open>bot\<close>, \<open>cryptoStore\<close>, \<open>olm\<close>),
  which \<open>env\<close> stands for. \<open>start\<close> and \<open>Timestamp\<close> are \<open>int64\<close> values that are only
  compared.
\<close>

record MatrixDaemon =
  Stopped :: bool
  ShutdownChannel :: chan
  userID :: string
  tokens :: "string \<rightharpoonup> UnverifiedUser"
  languages :: "string \<rightharpoonup> string"
  Encryption :: bool
  isEncrypted :: "string \<rightharpoonup> bool"
  app :: appContext
  start :: int

subsection \<open>Calls that leave matrix.go\<close>

datatype action =
    Stdout_RECV "string \<rightharpoonup> dyn"
  | Bot_SendText string string
  | Bot_SendMessageEvent string MessageEventContent
  | Bot_CreateRoom ReqCreateRoom
  | Bot_StopSync
  | Call_SendEncrypted MessageEventContent string
  | Call_EncryptRoom string string
  | Call_CryptoShutdown
  | Call_genAuthToken string
  | Call_storeMatrixUsers "string \<rightharpoonup> MatrixUser"
  | Err_Printf string

text \<open>
  Modelled from the spec: \<open>SendEncrypted\<close>, \<open>EncryptRoom\<close> and \<open>CryptoShutdown\<close> are
  defined in another file of the repository. They follow the EncryptionGateway
  contract (\<open>enableEncryption(roomID, userID) -> encrypted\<close>,
  \<open>sendEncrypted(roomID, content) -> error\<close>): they act outside the daemon, return,
  and leave the fields of \<open>MatrixDaemon\<close> modelled here as they were.
  \<open>genAuthToken\<close>, \<open>storeMatrixUsers\<close>, and \<open>get\<close> and \<open>template\<close> of a language section are
  missing as well and are parameters, like the mautrix client and the markdown
  renderer. \<open>genAuthToken()\<close> takes no argument in the source, so its result cannot
  depend on the daemon.
\<close>

record env =
  bot_SendText :: "action list \<Rightarrow> string \<Rightarrow> string \<Rightarrow> error option"
  bot_SendMessageEvent :: "action list \<Rightarrow> string \<Rightarrow> MessageEventContent \<Rightarrow> error option"
  bot_CreateRoom :: "action list \<Rightarrow> ReqCreateRoom \<Rightarrow> error + string"
  SendEncrypted :: "action list \<Rightarrow> MessageEventContent \<Rightarrow> string \<Rightarrow> error option"
  EncryptRoom :: "action list \<Rightarrow> string \<Rightarrow> string \<Rightarrow> bool"
  genAuthToken :: "action list \<Rightarrow> string"
  storeMatrixUsers :: "action list \<Rightarrow> (string \<rightharpoonup> MatrixUser) \<Rightarrow> error option"
  Strings_get :: "(string \<rightharpoonup> string) \<Rightarrow> string \<Rightarrow> string"
  Strings_template :: "(string \<rightharpoonup> string) \<Rightarrow> string \<Rightarrow> (string \<times> string) list \<Rightarrow> string"
  markdown_ToHTML :: "string \<Rightarrow> string"

subsection \<open>Strings\<close>

definition newline :: string where
  "newline = [CHR 0x0A]"

definition dquote :: string where
  "dquote = [CHR 0x22]"

text \<open>
  \<open>strings.Split(s, " ")\<close>: the separator is the one byte \<open>0x20\<close>. The result always
  has at least one element (\<open>[""]\<close> for the empty string).
\<close>

fun Split :: "string \<Rightarrow> char \<Rightarrow> string list" where
  "Split [] sep = [] # []"
| "Split (c # cs) sep =
     (if c = sep then [] # Split cs sep
      else (case Split cs sep of
              [] \<Rightarrow> [c] # []
            | w # ws \<Rightarrow> (c # w) # ws))"

text \<open>
  \<open>strings.ReplaceAll(s, "![", "[")\<close>: occurrences are replaced from the left and do
  not overlap.
\<close>

fun ReplaceAll_image :: "string \<Rightarrow> string" where
  "ReplaceAll_image [] = []"
| "ReplaceAll_image [c] = [c]"
| "ReplaceAll_image (c # c' # cs) =
     (if c = CHR ''!'' \<and> c' = CHR ''['' then CHR ''['' # ReplaceAll_image cs
      else c # ReplaceAll_image (c' # cs))"

subsection \<open>send and Send\<close>

definition send :: "env \<Rightarrow> MatrixDaemon \<Rightarrow> action list \<Rightarrow> MessageEventContent \<Rightarrow> string
    \<Rightarrow> error option \<times> action list" where
  "send e d tr content roomID =
     (if (case isEncrypted d roomID of None \<Rightarrow> False | Some encrypted \<Rightarrow> encrypted)
      then (SendEncrypted e tr content roomID, tr @ [Call_SendEncrypted content roomID])
      else (bot_SendMessageEvent e tr roomID content, tr @ [Bot_SendMessageEvent roomID content]))"

text \<open>The body of the loop of \<open>Send\<close> for one user: the error and the extended trace.\<close>

definition Send_user :: "env \<Rightarrow> MatrixDaemon \<Rightarrow> action list \<Rightarrow> MessageEventContent \<Rightarrow> MatrixUser
    \<Rightarrow> error option \<times> action list" where
  "Send_user e d tr content user =
     (if Encrypted user
      then (SendEncrypted e tr content (RoomID user), tr @ [Call_SendEncrypted content (RoomID user)])
      else send e d tr content (RoomID user))"

text \<open>\<open>for _, user := range users\<close>, leaving at the first error; \<open>err\<close> starts as \<open>nil\<close>.\<close>

fun Send_loop :: "env \<Rightarrow> MatrixDaemon \<Rightarrow> action list \<Rightarrow> MessageEventContent \<Rightarrow> MatrixUser list
    \<Rightarrow> error option \<times> action list" where
  "Send_loop e d tr content [] = (None, tr)"
| "Send_loop e d tr content (user # users) =
     (case Send_user e d tr content user of
        (Some err, tr') \<Rightarrow> (Some err, tr')
      | (None, tr') \<Rightarrow> Send_loop e d tr' content users)"

definition Send_content :: "env \<Rightarrow> Message \<Rightarrow> MessageEventContent" where
  "Send_content e message =
     (let md = (if Markdown message \<noteq> [] then markdown_ToHTML e (ReplaceAll_image (Markdown message))
                else []);
          content = \<lparr>MsgType = ''m.text'', Body = Text message, FormattedBody = [], Format = []\<rparr>
      in if md \<noteq> [] then content\<lparr>FormattedBody := md, Format := ''org.matrix.custom.html''\<rparr>
         else content)"

definition Send :: "env \<Rightarrow> MatrixDaemon \<Rightarrow> action list \<Rightarrow> Message \<Rightarrow> MatrixUser list
    \<Rightarrow> error option \<times> action list" where
  "Send e d tr message users = Send_loop e d tr (Send_content e message) users"

subsection \<open>handleMessage and commandLang\<close>

text \<open>
  How a call ends: it returns, or a Go run-time panic stops it. The daemon and the
  trace as they were at that moment are kept beside the outcome.
\<close>

datatype outcome = Returned | Panicked string

definition lang_entry :: "MatrixDaemon \<Rightarrow> string \<Rightarrow> telegramLang" where
  "lang_entry d c =
     (case map_of (storage_lang_Telegram (app d)) c of
        None \<Rightarrow> zero_telegramLang
      | Some l \<Rightarrow> l)"

text \<open>The listing built by \<open>commandLang\<close> when no code is given.\<close>

definition lang_list :: "MatrixDaemon \<Rightarrow> string" where
  "lang_list d =
     foldl (\<lambda>list c. list @ c @ '': '' @ Meta_Name (lang_entry d c) @ newline)
       (''!lang <lang>'' @ newline)
       (map fst (storage_lang_Telegram (app d)))"

definition commandLang :: "env \<Rightarrow> MatrixDaemon \<Rightarrow> action list \<Rightarrow> Event \<Rightarrow> string \<Rightarrow> string
    \<Rightarrow> MatrixDaemon \<times> action list" where
  "commandLang e d tr evt code lang =
     (if code = [] then
        (let list = lang_list d;
             err = bot_SendText e tr (evt_RoomID evt) list;
             tr1 = tr @ [Bot_SendText (evt_RoomID evt) list]
         in case err of
              Some er \<Rightarrow>
                (d, tr1 @ [Err_Printf (''Matrix: Failed to send message to '' @ dquote @ Sender evt
                                        @ dquote @ '': '' @ er)])
            | None \<Rightarrow> (d, tr1))
      else if map_of (storage_lang_Telegram (app d)) code = None then (d, tr)
      else
        (let d1 = d\<lparr>languages := (languages d)(evt_RoomID evt \<mapsto> code)\<rparr>
         in case storage_matrix (app d1) (evt_RoomID evt) of
              None \<Rightarrow> (d1, tr)
            | Some u \<Rightarrow>
                (let u' = u\<lparr>Lang := code\<rparr>;
                     matrix' = (storage_matrix (app d1))(evt_RoomID evt \<mapsto> u');
                     d2 = d1\<lparr>app := (app d1)\<lparr>storage_matrix := matrix'\<rparr>\<rparr>;
                     err = storeMatrixUsers e tr matrix';
                     tr1 = tr @ [Call_storeMatrixUsers matrix']
                 in case err of
                      Some er \<Rightarrow>
                        (d2, tr1 @ [Err_Printf (''Matrix: Failed to store Matrix users: '' @ er)])
                    | None \<Rightarrow> (d2, tr1))))"

text \<open>
  \<open>evt.Content.Raw["body"].(string)\<close> is a type assertion without the \<open>ok\<close> result: it
  panics on a missing key (a nil interface) and on a value that is not a string.
  \<open>sects[0]\<close> panics on an empty slice.
\<close>

definition handleMessage :: "env \<Rightarrow> MatrixDaemon \<Rightarrow> action list \<Rightarrow> Event
    \<Rightarrow> outcome \<times> MatrixDaemon \<times> action list" where
  "handleMessage e d tr evt =
     (if Timestamp evt < start d then (Returned, d, tr)
      else if Sender evt = userID d then (Returned, d, tr)
      else
        (let tr1 = tr @ [Stdout_RECV (Content_Raw evt)];
             lang = (case languages d (evt_RoomID evt) of
                       None \<Rightarrow> ''en-us''
                     | Some l \<Rightarrow>
                         (case map_of (storage_lang_Telegram (app d)) l of
                            None \<Rightarrow> ''en-us''
                          | Some _ \<Rightarrow> l))
         in case Content_Raw evt ''body'' of
              Some (DString body) \<Rightarrow>
                (case Split body CHR '' '' of
                   [] \<Rightarrow> (Panicked ''index out of range'', d, tr1)
                 | s0 # rest \<Rightarrow>
                     if s0 = ''!lang'' then
                       (if length (s0 # rest) = 2
                        then (case commandLang e d tr1 evt ((s0 # rest) ! 1) lang of
                                (d', tr') \<Rightarrow> (Returned, d', tr'))
                        else (case commandLang e d tr1 evt [] lang of
                                (d', tr') \<Rightarrow> (Returned, d', tr')))
                     else (Returned, d, tr1))
            | _ \<Rightarrow> (Panicked ''interface conversion'', d, tr1)))"

subsection \<open>CreateRoom and SendStart\<close>

text \<open>The request that \<open>CreateRoom\<close> hands to \<open>d.bot.CreateRoom\<close>.\<close>

definition CreateRoom_req :: "MatrixDaemon \<Rightarrow> string \<Rightarrow> ReqCreateRoom" where
  "CreateRoom_req d user =
     \<lparr>Visibility = ''private'', Invite = [user],
      Topic = config_matrix_topic (app d), IsDirect = True\<rparr>"

definition CreateRoom :: "env \<Rightarrow> MatrixDaemon \<Rightarrow> action list \<Rightarrow> string
    \<Rightarrow> (string \<times> bool \<times> error option) \<times> action list" where
  "CreateRoom e d tr user =
     (let req = CreateRoom_req d user;
          tr1 = tr @ [Bot_CreateRoom req]
      in case bot_CreateRoom e tr req of
           Inl err \<Rightarrow> (([], False, Some err), tr1)
         | Inr room \<Rightarrow>
             ((room, EncryptRoom e tr1 room user, None), tr1 @ [Call_EncryptRoom room user]))"

definition welcome_content :: "env \<Rightarrow> MatrixDaemon \<Rightarrow> string \<Rightarrow> string \<Rightarrow> MessageEventContent" where
  "welcome_content e d lang pin =
     \<lparr>MsgType = ''m.text'',
      Body = Strings_get e (Strings (lang_entry d lang)) ''matrixStartMessage''
             @ newline @ newline @ pin @ newline @ newline
             @ Strings_template e (Strings (lang_entry d lang)) ''languageMessage''
                 [(''command'', ''!lang'')],
      FormattedBody = [], Format = []\<rparr>"

text \<open>
  The value stored under the PIN: \<open>UnverifiedUser{false, &MatrixUser{...}}\<close>;
  \<open>Contact\<close> is not set and keeps its zero value.
\<close>

definition pending :: "string \<Rightarrow> string \<Rightarrow> string \<Rightarrow> bool \<Rightarrow> UnverifiedUser" where
  "pending roomID user lang encrypted =
     \<lparr>Verified = False,
      User = \<lparr>RoomID = roomID, Encrypted = encrypted, UserID = user, Lang = lang,
              Contact = False\<rparr>\<rparr>"

definition SendStart :: "env \<Rightarrow> MatrixDaemon \<Rightarrow> action list \<Rightarrow> string
    \<Rightarrow> bool \<times> MatrixDaemon \<times> action list" where
  "SendStart e d tr user =
     (case CreateRoom e d tr user of
        ((roomID, encrypted, Some err), tr1) \<Rightarrow>
          (False, d,
           tr1 @ [Err_Printf (''Failed to create room for user '' @ dquote @ user @ dquote
                              @ '': '' @ err)])
      | ((roomID, encrypted, None), tr1) \<Rightarrow>
          (let lang = ''en-us'';
               pin = genAuthToken e tr1;
               tr2 = tr1 @ [Call_genAuthToken pin];
               d1 = d\<lparr>tokens := (tokens d)(pin \<mapsto> pending roomID user lang encrypted)\<rparr>
           in case send e d1 tr2 (welcome_content e d1 lang pin) roomID of
                (Some err, tr3) \<Rightarrow>
                  (False, d1,
                   tr3 @ [Err_Printf (''Matrix: Failed to send welcome message to '' @ dquote
                                      @ user @ dquote @ '': '' @ err)])
              | (None, tr3) \<Rightarrow> (True, d1, tr3)))"

subsection \<open>Shutdown\<close>

text \<open>\<open>close\<close> of a channel that is already closed is a run-time panic in Go.\<close>

definition Shutdown :: "env \<Rightarrow> MatrixDaemon \<Rightarrow> action list
    \<Rightarrow> outcome \<times> MatrixDaemon \<times> action list" where
  "Shutdown e d tr =
     (let tr1 = tr @ [Call_CryptoShutdown];
          tr2 = tr1 @ [Bot_StopSync];
          d1 = d\<lparr>Stopped := True\<rparr>
      in case ShutdownChannel d1 of
           Closed \<Rightarrow> (Panicked ''close of closed channel'', d1, tr2)
         | Open \<Rightarrow> (Returned, d1\<lparr>ShutdownChannel := Closed\<rparr>, tr2))"

subsection \<open>Sequences of calls\<close>

text \<open>
  The entry points of the daemon, called one after the other on the same daemon (the
  sync loop delivering events, the application calling \<open>SendStart\<close>, \<open>Send\<close>, \<open>send\<close>
  and \<open>Shutdown\<close>). A panic ends the sequence.
\<close>

datatype call =
    Do_handleMessage Event
  | Do_SendStart string
  | Do_Send Message "MatrixUser list"
  | Do_send MessageEventContent string
  | Do_Shutdown

fun exec :: "env \<Rightarrow> MatrixDaemon \<Rightarrow> action list \<Rightarrow> call \<Rightarrow> outcome \<times> MatrixDaemon \<times> action list" where
  "exec e d tr (Do_handleMessage evt) = handleMessage e d tr evt"
| "exec e d tr (Do_SendStart user) = (case SendStart e d tr user of (ok, d', tr') \<Rightarrow> (Returned, d', tr'))"
| "exec e d tr (Do_Send message users) = (Returned, d, snd (Send e d tr message users))"
| "exec e d tr (Do_send content roomID) = (Returned, d, snd (send e d tr content roomID))"
| "exec e d tr Do_Shutdown = Shutdown e d tr"

fun run :: "env \<Rightarrow> MatrixDaemon \<Rightarrow> action list \<Rightarrow> call list \<Rightarrow> outcome \<times> MatrixDaemon \<times> action list" where
  "run e d tr [] = (Returned, d, tr)"
| "run e d tr (c # cs) =
     (case exec e d tr c of
        (Returned, d', tr') \<Rightarrow> run e d' tr' cs
      | (Panicked msg, d', tr') \<Rightarrow> (Panicked msg, d', tr'))"

subsection \<open>Observations on traces\<close>

text \<open>
  The plaintext delivery of \<open>send\<close> to a room is the action
  \<open>Bot_SendMessageEvent room content\<close>. \<open>no_plaintext_since room tr tr'\<close> says that
  \<open>tr'\<close> continues \<open>tr\<close> and that nothing after \<open>tr\<close> is such a delivery to \<open>room\<close>.
\<close>

fun plaintext_to :: "string \<Rightarrow> action \<Rightarrow> bool" where
  "plaintext_to r (Bot_SendMessageEvent r' c) = (r' = r)"
| "plaintext_to r _ = False"

definition no_plaintext_since :: "string \<Rightarrow> action list \<Rightarrow> action list \<Rightarrow> bool" where
  "no_plaintext_since room tr tr' =
     (take (length tr) tr' = tr
      \<and> list_all (\<lambda>a. \<not> plaintext_to room a) (drop (length tr) tr'))"

text \<open>
  The action that one round of the loop of \<open>Send\<close> performs for a user: the encrypted
  call when the user's own flag or the cached flag of the room is set, the plaintext
  call otherwise.
\<close>

definition delivery :: "MatrixDaemon \<Rightarrow> MessageEventContent \<Rightarrow> MatrixUser \<Rightarrow> action" where
  "delivery d content user =
     (if Encrypted user \<or> isEncrypted d (RoomID user) = Some True
      then Call_SendEncrypted content (RoomID user)
      else Bot_SendMessageEvent (RoomID user) content)"

subsection \<open>Concrete daemons, environments and events\<close>

definition lang_en :: telegramLang where
  "lang_en = \<lparr>Meta_Name = ''English (US)'',
              Strings = [''matrixStartMessage'' \<mapsto> ''Enter this PIN:'',
                         ''languageMessage'' \<mapsto> ''Change language with {command}''] \<rparr>"

definition lang_fr :: telegramLang where
  "lang_fr = \<lparr>Meta_Name = ''Francais'', Strings = Map.empty\<rparr>"

definition user_paired :: MatrixUser where
  "user_paired = \<lparr>RoomID = ''!paired:hs'', Encrypted = False, UserID = ''@carol:hs'',
                  Lang = ''en-us'', Contact = True\<rparr>"

definition app0 :: appContext where
  "app0 = \<lparr>storage_matrix = [''!paired:hs'' \<mapsto> user_paired],
           storage_lang_Telegram = [(''en-us'', lang_en), (''fr'', lang_fr)],
           config_matrix_topic = ''jfa-go''\<rparr>"

text \<open>A running daemon that knows one encrypted room, \<open>!enc:hs\<close>, and has no pending token.\<close>

definition d0 :: MatrixDaemon where
  "d0 = \<lparr>Stopped = False, ShutdownChannel = Open, userID = ''@bot:hs'',
         tokens = Map.empty, languages = Map.empty, Encryption = True,
         isEncrypted = [''!enc:hs'' \<mapsto> True, ''!paired:hs'' \<mapsto> False],
         app = app0, start = 1000\<rparr>"

text \<open>
  An environment in which every call succeeds, rooms are named after the invited
  user, encryption is never negotiated, and the PIN generator answers \<open>AB-CD-EF\<close>
  every time.
\<close>

definition env_ok :: env where
  "env_ok = \<lparr>bot_SendText = (\<lambda>tr room text. None),
             bot_SendMessageEvent = (\<lambda>tr room content. None),
             bot_CreateRoom = (\<lambda>tr req. Inr (''!dm-'' @ concat (Invite req))),
             SendEncrypted = (\<lambda>tr content room. None),
             EncryptRoom = (\<lambda>tr room user. False),
             genAuthToken = (\<lambda>tr. ''AB-CD-EF''),
             storeMatrixUsers = (\<lambda>tr m. None),
             Strings_get = (\<lambda>m k. case m k of None \<Rightarrow> [] | Some v \<Rightarrow> v),
             Strings_template = (\<lambda>m k vars. case m k of None \<Rightarrow> [] | Some v \<Rightarrow> v),
             markdown_ToHTML = (\<lambda>md. md)\<rparr>"

text \<open>As \<open>env_ok\<close>, but the homeserver refuses to create rooms.\<close>

definition env_no_room :: env where
  "env_no_room = env_ok\<lparr>bot_CreateRoom := (\<lambda>tr req. Inl ''M_LIMIT_EXCEEDED'')\<rparr>"

text \<open>As \<open>env_ok\<close>, but plaintext messages to the room \<open>!a:hs\<close> are refused.\<close>

definition env_a_fails :: env where
  "env_a_fails =
     env_ok\<lparr>bot_SendMessageEvent :=
              (\<lambda>tr room content. if room = ''!a:hs'' then Some ''M_FORBIDDEN'' else None)\<rparr>"

text \<open>As \<open>env_ok\<close>, but every plaintext message is refused.\<close>

definition env_send_fails :: env where
  "env_send_fails = env_ok\<lparr>bot_SendMessageEvent := (\<lambda>tr room content. Some ''M_FORBIDDEN'')\<rparr>"

definition msg0 :: Message where
  "msg0 = \<lparr>Text = ''Your account expires soon'', Markdown = []\<rparr>"

definition content0 :: MessageEventContent where
  "content0 = \<lparr>MsgType = ''m.text'', Body = ''hello'', FormattedBody = [], Format = []\<rparr>"

definition user_a :: MatrixUser where
  "user_a = \<lparr>RoomID = ''!a:hs'', Encrypted = False, UserID = ''@a:hs'', Lang = ''en-us'',
             Contact = True\<rparr>"

definition user_b :: MatrixUser where
  "user_b = \<lparr>RoomID = ''!b:hs'', Encrypted = False, UserID = ''@b:hs'', Lang = ''en-us'',
             Contact = True\<rparr>"

text \<open>A stored user of the encrypted room whose own \<open>Encrypted\<close> field is not set.\<close>

definition user_enc :: MatrixUser where
  "user_enc = \<lparr>RoomID = ''!enc:hs'', Encrypted = False, UserID = ''@e:hs'', Lang = ''en-us'',
               Contact = True\<rparr>"

definition evt_text :: "int \<Rightarrow> string \<Rightarrow> string \<Rightarrow> Event" where
  "evt_text ts room body =
     \<lparr>Timestamp = ts, Sender = ''@alice:hs'', evt_RoomID = room,
      Content_Raw = [''msgtype'' \<mapsto> DString ''m.text'', ''body'' \<mapsto> DString body]\<rparr>"

text \<open>An event without a \<open>body\<close>, as an image or a redacted message may be.\<close>

definition evt_no_body :: Event where
  "evt_no_body =
     \<lparr>Timestamp = 2000, Sender = ''@alice:hs'', evt_RoomID = ''!paired:hs'',
      Content_Raw = [''msgtype'' \<mapsto> DString ''m.image'']\<rparr>"

text \<open>The daemon and the trace after a first \<open>SendStart\<close> for \<open>@alice:hs\<close>.\<close>

definition d_alice :: MatrixDaemon where
  "d_alice = fst (snd (SendStart env_ok d0 [] ''@alice:hs''))"

definition tr_alice :: "action list" where
  "tr_alice = snd (snd (SendStart env_ok d0 [] ''@alice:hs''))"

section \<open>Properties\<close>

subsection \<open>Auxiliary facts\<close>

lemma Split_not_Nil: "Split s sep \<noteq> []"
  by (induction s) (auto split: list.splits)

lemma Split_no_sep: "sep \<notin> set s \<Longrightarrow> Split s sep = [s]"
  by (induction s) auto

lemma send_trace:
  "snd (send e d tr content roomID) =
     tr @ [if isEncrypted d roomID = Some True then Call_SendEncrypted content roomID
           else Bot_SendMessageEvent roomID content]"
  by (auto simp: send_def split: option.splits)

lemma Send_user_trace: "snd (Send_user e d tr content user) = tr @ [delivery d content user]"
  by (simp add: Send_user_def delivery_def send_trace)

lemma Send_loop_shape:
  "(case Send_loop e d tr content users of
      (None, tr') \<Rightarrow> tr' = tr @ map (delivery d content) users
    | (Some err, tr') \<Rightarrow>
        (\<exists>done u rest. users = done @ u # rest
           \<and> Send_loop e d tr content done = (None, tr @ map (delivery d content) done)
           \<and> Send_user e d (tr @ map (delivery d content) done) content u = (Some err, tr')
           \<and> tr' = tr @ map (delivery d content) (done @ [u])))"
proof (induction users arbitrary: tr)
  case Nil
  show ?case by simp
next
  case (Cons u us)
  obtain r tr1 where su: "Send_user e d tr content u = (r, tr1)"
    by (cases "Send_user e d tr content u")
  have tr1: "tr1 = tr @ [delivery d content u]"
    using Send_user_trace [of e d tr content u] su by simp
  show ?case
  proof (cases r)
    case (Some err)
    with su tr1 have "Send_loop e d tr content (u # us) = (Some err, tr1)"
      and "u # us = [] @ u # us"
      and "Send_loop e d tr content [] = (None, tr @ map (delivery d content) [])"
      and "Send_user e d (tr @ map (delivery d content) []) content u = (Some err, tr1)"
      and "tr1 = tr @ map (delivery d content) ([] @ [u])"
      by simp_all
    then show ?thesis by (simp only: prod.case option.case) blast
  next
    case None
    with su have step: "Send_loop e d tr content (u # us) = Send_loop e d tr1 content us"
      by simp
    obtain r' tr' where sl: "Send_loop e d tr1 content us = (r', tr')"
      by (cases "Send_loop e d tr1 content us")
    show ?thesis
    proof (cases r')
      case None
      with Cons.IH [of tr1] sl tr1 step show ?thesis by simp
    next
      case (Some err)
      with Cons.IH [of tr1] sl obtain dn v rest where
        us: "us = dn @ v # rest"
        and dn: "Send_loop e d tr1 content dn = (None, tr1 @ map (delivery d content) dn)"
        and v: "Send_user e d (tr1 @ map (delivery d content) dn) content v = (Some err, tr')"
        and tr': "tr' = tr1 @ map (delivery d content) (dn @ [v])"
        by auto
      have "u # us = (u # dn) @ v # rest" using us by simp
      moreover have "Send_loop e d tr content (u # dn)
                       = (None, tr @ map (delivery d content) (u # dn))"
        using su \<open>r = None\<close> dn tr1 by simp
      moreover have "Send_user e d (tr @ map (delivery d content) (u # dn)) content v
                       = (Some err, tr')"
        using v tr1 by simp
      moreover have "tr' = tr @ map (delivery d content) ((u # dn) @ [v])"
        using tr' tr1 by simp
      ultimately show ?thesis
        using step sl Some by (simp only: prod.case option.case) blast
    qed
  qed
qed

lemma no_plaintext_since_append:
  "no_plaintext_since room tr (tr @ new) = list_all (\<lambda>a. \<not> plaintext_to room a) new"
  by (simp add: no_plaintext_since_def)

lemma no_plaintext_since_refl: "no_plaintext_since room tr tr"
  by (simp add: no_plaintext_since_def)

lemma no_plaintext_sinceE:
  assumes "no_plaintext_since room tr tr'"
  obtains new where "tr' = tr @ new" and "list_all (\<lambda>a. \<not> plaintext_to room a) new"
proof -
  from assms have "tr' = tr @ drop (length tr) tr'"
    unfolding no_plaintext_since_def by (metis append_take_drop_id)
  with assms that show thesis
    unfolding no_plaintext_since_def by blast
qed

lemma no_plaintext_since_trans:
  assumes "no_plaintext_since room tr tr1" and "no_plaintext_since room tr1 tr2"
  shows "no_plaintext_since room tr tr2"
proof -
  from assms(1) obtain n1 where n1: "tr1 = tr @ n1" "list_all (\<lambda>a. \<not> plaintext_to room a) n1"
    by (rule no_plaintext_sinceE)
  from assms(2) obtain n2 where n2: "tr2 = tr1 @ n2" "list_all (\<lambda>a. \<not> plaintext_to room a) n2"
    by (rule no_plaintext_sinceE)
  have "tr2 = tr @ (n1 @ n2)" using n1 n2 by simp
  moreover have "list_all (\<lambda>a. \<not> plaintext_to room a) (n1 @ n2)" using n1 n2 by simp
  ultimately show ?thesis by (simp only: no_plaintext_since_append)
qed

lemma delivery_not_plaintext:
  "isEncrypted d room = Some True \<Longrightarrow> \<not> plaintext_to room (delivery d content user)"
  by (auto simp: delivery_def)

lemma send_no_plaintext:
  "isEncrypted d room = Some True \<Longrightarrow> no_plaintext_since room tr (snd (send e d tr content r))"
  by (auto simp: send_trace no_plaintext_since_append)

lemma Send_loop_no_plaintext:
  assumes "isEncrypted d room = Some True"
  shows "no_plaintext_since room tr (snd (Send_loop e d tr content users))"
proof -
  have q: "list_all (\<lambda>a. \<not> plaintext_to room a) (map (delivery d content) us)" for us
    using assms by (simp add: list_all_iff delivery_not_plaintext)
  obtain r tr' where sl: "Send_loop e d tr content users = (r, tr')"
    by (cases "Send_loop e d tr content users")
  show ?thesis
  proof (cases r)
    case None
    with Send_loop_shape [where e = e and d = d and tr = tr and content = content and users = users] sl
    have "tr' = tr @ map (delivery d content) users" by simp
    with sl q show ?thesis by (simp add: no_plaintext_since_append)
  next
    case (Some err)
    with Send_loop_shape [where e = e and d = d and tr = tr and content = content and users = users] sl
    obtain dn u where "tr' = tr @ map (delivery d content) (dn @ [u])" by auto
    with sl q [of "dn @ [u]"] show ?thesis by (simp only: snd_conv no_plaintext_since_append)
  qed
qed

lemma commandLang_isEncrypted:
  "isEncrypted (fst (commandLang e d tr evt code lang)) = isEncrypted d"
  by (simp add: commandLang_def Let_def split: option.splits)

lemma commandLang_no_plaintext:
  "no_plaintext_since room tr (snd (commandLang e d tr evt code lang))"
  by (simp add: commandLang_def Let_def no_plaintext_since_append no_plaintext_since_refl
           split: option.splits)

lemma handleMessage_isEncrypted:
  "isEncrypted (fst (snd (handleMessage e d tr evt))) = isEncrypted d"
proof -
  have "isEncrypted (fst (snd (case commandLang e d t evt code lang of
                                 (d', tr') \<Rightarrow> (Returned, d', tr')))) = isEncrypted d"
    for t code lang
    using commandLang_isEncrypted [of e d t evt code lang]
    by (simp add: split_def)
  then show ?thesis
    by (simp add: handleMessage_def Let_def split: option.splits dyn.splits list.splits)
qed

lemma handleMessage_no_plaintext:
  "no_plaintext_since room tr (snd (snd (handleMessage e d tr evt)))"
proof -
  have "no_plaintext_since room tr
          (snd (snd (case commandLang e d (tr @ [Stdout_RECV c]) evt code lang of
                       (d', tr') \<Rightarrow> (Returned, d', tr'))))"
    for c code lang
  proof -
    have "no_plaintext_since room tr (tr @ [Stdout_RECV c])"
      by (simp add: no_plaintext_since_append)
    from no_plaintext_since_trans [OF this commandLang_no_plaintext]
    show ?thesis by (simp add: split_def)
  qed
  then show ?thesis
    by (simp add: handleMessage_def Let_def no_plaintext_since_refl no_plaintext_since_append
             split: option.splits dyn.splits list.splits)
qed

lemma Shutdown_isEncrypted: "isEncrypted (fst (snd (Shutdown e d tr))) = isEncrypted d"
  by (simp add: Shutdown_def Let_def split: chan.splits)

lemma Shutdown_no_plaintext: "no_plaintext_since room tr (snd (snd (Shutdown e d tr)))"
  by (simp add: Shutdown_def Let_def no_plaintext_since_def split: chan.splits)

lemma CreateRoom_no_plaintext: "no_plaintext_since room tr (snd (CreateRoom e d tr user))"
  by (simp add: CreateRoom_def Let_def no_plaintext_since_def split: sum.splits)

lemma SendStart_isEncrypted: "isEncrypted (fst (snd (SendStart e d tr user))) = isEncrypted d"
  by (simp add: SendStart_def Let_def split: prod.splits option.splits)

lemma SendStart_no_plaintext:
  assumes "isEncrypted d room = Some True"
  shows "no_plaintext_since room tr (snd (snd (SendStart e d tr user)))"
proof -
  obtain roomID encrypted err tr1 where cr: "CreateRoom e d tr user = ((roomID, encrypted, err), tr1)"
    by (metis prod.collapse)
  have t1: "no_plaintext_since room tr tr1"
    using CreateRoom_no_plaintext [of room tr e d user] cr by simp
  show ?thesis
  proof (cases err)
    case (Some er)
    have "no_plaintext_since room tr1 (tr1 @ [Err_Printf m])" for m
      by (simp add: no_plaintext_since_append)
    from no_plaintext_since_trans [OF t1 this] cr Some show ?thesis
      by (simp add: SendStart_def)
  next
    case None
    define pin where "pin = genAuthToken e tr1"
    define d1 where "d1 = d\<lparr>tokens := (tokens d)(pin \<mapsto> pending roomID user ''en-us'' encrypted)\<rparr>"
    define tr2 where "tr2 = tr1 @ [Call_genAuthToken pin]"
    obtain r tr3 where sd: "send e d1 tr2 (welcome_content e d1 ''en-us'' pin) roomID = (r, tr3)"
      by (metis prod.collapse)
    have "isEncrypted d1 room = Some True" using assms by (simp add: d1_def)
    from send_no_plaintext [OF this, of tr2 e "welcome_content e d1 ''en-us'' pin" roomID] sd
    have t3: "no_plaintext_since room tr2 tr3" by simp
    have t2: "no_plaintext_since room tr1 tr2" by (simp add: tr2_def no_plaintext_since_append)
    have t13: "no_plaintext_since room tr tr3"
      using no_plaintext_since_trans [OF t1 no_plaintext_since_trans [OF t2 t3]] .
    have t4: "no_plaintext_since room tr (tr3 @ [Err_Printf m])" for m
      by (rule no_plaintext_since_trans [OF t13]) (simp add: no_plaintext_since_append)
    show ?thesis
      using cr None sd t13 t4
      by (cases r) (simp_all add: SendStart_def Let_def pin_def [symmetric] d1_def [symmetric]
                                 tr2_def [symmetric])
  qed
qed

lemma exec_sticky:
  assumes "isEncrypted d room = Some True"
  shows "isEncrypted (fst (snd (exec e d tr c))) room = Some True
         \<and> no_plaintext_since room tr (snd (snd (exec e d tr c)))"
proof (cases c)
  case (Do_handleMessage evt)
  then show ?thesis
    using assms by (simp add: handleMessage_isEncrypted handleMessage_no_plaintext)
next
  case (Do_SendStart user)
  then show ?thesis
    using assms SendStart_isEncrypted [of e d tr user] SendStart_no_plaintext [OF assms, of tr e user]
    by (simp add: split_def)
next
  case (Do_Send message users)
  then show ?thesis
    using assms by (simp add: Send_def Send_loop_no_plaintext)
next
  case (Do_send content roomID)
  then show ?thesis
    using assms by (simp add: send_no_plaintext)
next
  case Do_Shutdown
  then show ?thesis
    using assms by (simp add: Shutdown_isEncrypted Shutdown_no_plaintext)
qed

lemma run_sticky:
  "isEncrypted d room = Some True \<Longrightarrow>
     isEncrypted (fst (snd (run e d tr calls))) room = Some True
     \<and> no_plaintext_since room tr (snd (snd (run e d tr calls)))"
proof (induction calls arbitrary: d tr)
  case Nil
  then show ?case by (simp add: no_plaintext_since_refl)
next
  case (Cons c cs)
  obtain out d1 tr1 where ex: "exec e d tr c = (out, d1, tr1)"
    by (metis prod.collapse)
  from exec_sticky [OF Cons.prems, of e tr c] ex
  have d1: "isEncrypted d1 room = Some True" and t1: "no_plaintext_since room tr tr1"
    by simp_all
  show ?case
  proof (cases out)
    case Returned
    from Cons.IH [OF d1, of tr1] t1 ex Returned show ?thesis
      by (auto intro: no_plaintext_since_trans)
  next
    case (Panicked msg)
    with ex d1 t1 show ?thesis by simp
  qed
qed

lemma SendStart_created:
  assumes "CreateRoom e d tr user = ((roomID, encrypted, None), tr1)"
  shows "SendStart e d tr user =
     (let pin = genAuthToken e tr1;
          d1 = d\<lparr>tokens := (tokens d)(pin \<mapsto> pending roomID user ''en-us'' encrypted)\<rparr>
      in case send e d1 (tr1 @ [Call_genAuthToken pin]) (welcome_content e d1 ''en-us'' pin) roomID of
           (Some err, tr3) \<Rightarrow>
             (False, d1,
              tr3 @ [Err_Printf (''Matrix: Failed to send welcome message to '' @ dquote
                                 @ user @ dquote @ '': '' @ err)])
         | (None, tr3) \<Rightarrow> (True, d1, tr3))"
  using assms by (simp add: SendStart_def Let_def)

lemma SendStart_not_created:
  assumes "CreateRoom e d tr user = ((roomID, encrypted, Some err), tr1)"
  shows "SendStart e d tr user =
     (False, d, tr1 @ [Err_Printf (''Failed to create room for user '' @ dquote @ user @ dquote
                                   @ '': '' @ err)])"
  using assms by (simp add: SendStart_def)

lemmas eval_SendStart =
  SendStart_def CreateRoom_def CreateRoom_req_def send_def welcome_content_def Let_def

lemmas eval_handleMessage = handleMessage_def commandLang_def evt_text_def Let_def

subsection \<open>Routing of encrypted rooms\<close>

text \<open>
  Claim C1. Let the cached flag \<open>isEncrypted\<close> of a room be true. Then \<open>send\<close> to that
  room calls \<open>SendEncrypted\<close> and nothing else; the round of \<open>Send\<close> for any user of
  that room does the same, whatever the user's own \<open>Encrypted\<close> field says; a whole
  \<open>Send\<close> never performs the plaintext delivery \<open>bot.SendMessageEvent\<close> to that room;
  and along any sequence of calls of the daemon's entry points the flag stays true and
  no plaintext delivery of \<open>send\<close> to that room is ever performed.
\<close>

theorem sticky_encryption:
  assumes "isEncrypted d room = Some True"
  shows "send e d tr content room
           = (SendEncrypted e tr content room, tr @ [Call_SendEncrypted content room])
         \<and> (\<forall>user. RoomID user = room \<longrightarrow>
               Send_user e d tr content user
                 = (SendEncrypted e tr content room, tr @ [Call_SendEncrypted content room]))
         \<and> no_plaintext_since room tr (snd (Send e d tr message users))
         \<and> isEncrypted (fst (snd (run e d tr calls))) room = Some True
         \<and> no_plaintext_since room tr (snd (snd (run e d tr calls)))"
proof -
  have s: "send e d tr content room
             = (SendEncrypted e tr content room, tr @ [Call_SendEncrypted content room])"
    using assms by (simp add: send_def)
  then have "\<forall>user. RoomID user = room \<longrightarrow>
               Send_user e d tr content user
                 = (SendEncrypted e tr content room, tr @ [Call_SendEncrypted content room])"
    by (simp add: Send_user_def)
  moreover have "no_plaintext_since room tr (snd (Send e d tr message users))"
    using assms by (simp add: Send_def Send_loop_no_plaintext)
  ultimately show ?thesis
    using s run_sticky [OF assms, of e tr calls] by simp
qed

theorem sticky_encryption_witness:
  "isEncrypted d0 ''!enc:hs'' = Some True
   \<and> send env_ok d0 [] content0 ''!enc:hs'' = (None, [Call_SendEncrypted content0 ''!enc:hs''])
   \<and> Send_user env_ok d0 [] content0 user_enc
        = (None, [Call_SendEncrypted content0 ''!enc:hs''])
   \<and> no_plaintext_since ''!enc:hs'' []
        (snd (snd (run env_ok d0 []
           [Do_send content0 ''!enc:hs'', Do_Send msg0 [user_enc, user_a],
            Do_handleMessage (evt_text 2000 ''!enc:hs'' ''!lang fr'')])))"
proof -
  have h: "isEncrypted d0 ''!enc:hs'' = Some True"
    by (simp add: d0_def)
  have u: "RoomID user_enc = ''!enc:hs''"
    by (simp add: user_enc_def)
  have s: "SendEncrypted env_ok [] content0 ''!enc:hs'' = None"
    by (simp add: env_ok_def)
  note th = sticky_encryption [OF h, where e = env_ok and tr = "[]" and content = content0
      and message = msg0 and users = "[user_enc, user_a]"
      and calls = "[Do_send content0 ''!enc:hs'', Do_Send msg0 [user_enc, user_a],
                    Do_handleMessage (evt_text 2000 ''!enc:hs'' ''!lang fr'')]"]
  from th have 1: "send env_ok d0 [] content0 ''!enc:hs''
                     = (None, [Call_SendEncrypted content0 ''!enc:hs''])"
    by (simp only: s append_Nil)
  from th u have 2: "Send_user env_ok d0 [] content0 user_enc
                       = (None, [Call_SendEncrypted content0 ''!enc:hs''])"
    by (simp only: s append_Nil)
  from th h 1 2 show ?thesis by blast
qed

subsection \<open>Issuing a PIN\<close>

text \<open>
  \<open>SendStart\<close> stores under the PIN that \<open>genAuthToken\<close> returns and never looks the PIN
  up first. When the generator answers with a PIN that is still pending, here the one
  issued to \<open>@alice:hs\<close> a call earlier, the token of \<open>@alice:hs\<close> is replaced by the
  one of \<open>@bob:hs\<close>.
\<close>

theorem SendStart_pin_collision:
  "tokens d_alice ''AB-CD-EF''
     = Some (pending ''!dm-@alice:hs'' ''@alice:hs'' ''en-us'' False)
   \<and> genAuthToken env_ok (snd (CreateRoom env_ok d_alice tr_alice ''@bob:hs'')) = ''AB-CD-EF''
   \<and> tokens (fst (snd (SendStart env_ok d_alice tr_alice ''@bob:hs''))) ''AB-CD-EF''
       = Some (pending ''!dm-@bob:hs'' ''@bob:hs'' ''en-us'' False)"
  by (simp add: d_alice_def tr_alice_def eval_SendStart env_ok_def d0_def)

text \<open>
  Claim C2, amended. When the room has been created, the registry after \<open>SendStart\<close> is
  the registry before it with the one key returned by \<open>genAuthToken\<close> set to the new
  pending token. No key is looked up beforehand; if the PIN was absent, every token that
  was pending is still there.
\<close>

theorem SendStart_overwrites:
  assumes "CreateRoom e d tr user = ((roomID, encrypted, None), tr1)"
  shows "tokens (fst (snd (SendStart e d tr user)))
           = (tokens d)(genAuthToken e tr1 \<mapsto> pending roomID user ''en-us'' encrypted)
         \<and> (tokens d (genAuthToken e tr1) = None
              \<longrightarrow> tokens d \<subseteq>\<^sub>m tokens (fst (snd (SendStart e d tr user))))"
proof -
  have "tokens (fst (snd (SendStart e d tr user)))
           = (tokens d)(genAuthToken e tr1 \<mapsto> pending roomID user ''en-us'' encrypted)"
    by (simp add: SendStart_created [OF assms] Let_def split: prod.splits option.splits)
  then show ?thesis by (auto simp: map_le_def)
qed

theorem SendStart_overwrites_witness:
  "CreateRoom env_ok d0 [] ''@alice:hs''
     = ((''!dm-@alice:hs'', False, None),
        [Bot_CreateRoom (CreateRoom_req d0 ''@alice:hs''),
         Call_EncryptRoom ''!dm-@alice:hs'' ''@alice:hs''])
   \<and> tokens d0 ''AB-CD-EF'' = None
   \<and> tokens (fst (snd (SendStart env_ok d0 [] ''@alice:hs'')))
       = (tokens d0)(''AB-CD-EF'' \<mapsto> pending ''!dm-@alice:hs'' ''@alice:hs'' ''en-us'' False)
   \<and> tokens d0 \<subseteq>\<^sub>m tokens (fst (snd (SendStart env_ok d0 [] ''@alice:hs'')))"
proof -
  have c: "CreateRoom env_ok d0 [] ''@alice:hs''
             = ((''!dm-@alice:hs'', False, None),
                [Bot_CreateRoom (CreateRoom_req d0 ''@alice:hs''),
                 Call_EncryptRoom ''!dm-@alice:hs'' ''@alice:hs''])"
    by (simp add: CreateRoom_def CreateRoom_req_def Let_def env_ok_def)
  have p: "genAuthToken env_ok
             [Bot_CreateRoom (CreateRoom_req d0 ''@alice:hs''),
              Call_EncryptRoom ''!dm-@alice:hs'' ''@alice:hs''] = ''AB-CD-EF''"
    by (simp add: env_ok_def)
  have t: "tokens d0 ''AB-CD-EF'' = None"
    by (simp add: d0_def)
  note th = SendStart_overwrites [OF c, unfolded p]
  from th c t show ?thesis by blast
qed

subsection \<open>Send to several users\<close>

text \<open>
  \<open>Send\<close> leaves its loop at the first error. With two recipients, the first of which
  cannot be reached, nothing is attempted for the second.
\<close>

theorem Send_skips_after_failure:
  "Send env_a_fails d0 [] msg0 [user_a, user_b]
     = (Some ''M_FORBIDDEN'', [Bot_SendMessageEvent ''!a:hs'' (Send_content env_a_fails msg0)])"
  by (simp add: Send_def Send_user_def send_def env_a_fails_def env_ok_def d0_def
        user_a_def user_b_def)

text \<open>
  Claim C3, amended. \<open>Send\<close> attempts its recipients in the order given and stops at
  the first failure. If it returns \<open>nil\<close>, one delivery was performed for every
  recipient. If it returns an error, the recipients split into those before the failing
  one, each delivered without error, the failing one, whose error is the one returned,
  and the rest, for which nothing was attempted.
\<close>

theorem Send_stops_at_first_error:
  "(case Send e d tr message users of
      (None, tr') \<Rightarrow> tr' = tr @ map (delivery d (Send_content e message)) users
    | (Some err, tr') \<Rightarrow>
        (\<exists>done u rest. users = done @ u # rest
           \<and> Send_loop e d tr (Send_content e message) done
               = (None, tr @ map (delivery d (Send_content e message)) done)
           \<and> Send_user e d (tr @ map (delivery d (Send_content e message)) done)
               (Send_content e message) u = (Some err, tr')
           \<and> tr' = tr @ map (delivery d (Send_content e message)) (done @ [u])))"
  unfolding Send_def by (rule Send_loop_shape)

theorem Send_stops_at_first_error_witness:
  "fst (Send env_a_fails d0 [] msg0 [user_a, user_b]) = Some ''M_FORBIDDEN''
   \<and> (\<exists>done u rest. [user_a, user_b] = done @ u # rest
         \<and> Send_user env_a_fails d0 ([] @ map (delivery d0 (Send_content env_a_fails msg0)) done)
             (Send_content env_a_fails msg0) u
             = (Some ''M_FORBIDDEN'', snd (Send env_a_fails d0 [] msg0 [user_a, user_b]))
         \<and> snd (Send env_a_fails d0 [] msg0 [user_a, user_b])
             = [] @ map (delivery d0 (Send_content env_a_fails msg0)) (done @ [u]))"
proof -
  have ev: "Send env_a_fails d0 [] msg0 [user_a, user_b]
              = (Some ''M_FORBIDDEN'',
                 [Bot_SendMessageEvent ''!a:hs'' (Send_content env_a_fails msg0)])"
    by (simp add: Send_def Send_user_def send_def env_a_fails_def env_ok_def d0_def
          user_a_def user_b_def)
  from Send_stops_at_first_error [where e = env_a_fails and d = d0 and tr = "[]"
      and message = msg0 and users = "[user_a, user_b]"]
  show ?thesis
    unfolding ev by (simp only: prod.case option.case fst_conv snd_conv) blast
qed

subsection \<open>Shutdown\<close>

text \<open>A second \<open>Shutdown\<close> closes a channel that is already closed.\<close>

theorem Shutdown_twice_panics:
  "fst (run env_ok d0 [] [Do_Shutdown, Do_Shutdown]) = Panicked ''close of closed channel''"
  by (simp add: Shutdown_def Let_def d0_def)

text \<open>
  Claim C4, amended. On a daemon whose shutdown channel is open, \<open>Shutdown\<close> stops
  the sync loop and releases the transport (it calls \<open>CryptoShutdown\<close> and then
  \<open>d.bot.StopSync\<close>), sets \<open>Stopped\<close>, closes the shutdown channel, which unblocks
  its waiters, and returns; the channel is closed by that call and by no later one.
  \<open>Shutdown\<close> is not idempotent: it has no guard against being called again, and on
  the daemon it leaves behind a second call runs \<open>CryptoShutdown\<close> and
  \<open>d.bot.StopSync\<close> once more and then panics at the \<open>close\<close>, with the fields of the
  daemon as the first call left them.
\<close>

theorem Shutdown_first_then_panic:
  "ShutdownChannel d = Open \<Longrightarrow>
     Shutdown e d tr = (Returned, d\<lparr>Stopped := True, ShutdownChannel := Closed\<rparr>,
                        tr @ [Call_CryptoShutdown, Bot_StopSync])
     \<and> Shutdown e (d\<lparr>Stopped := True, ShutdownChannel := Closed\<rparr>) tr'
         = (Panicked ''close of closed channel'',
            d\<lparr>Stopped := True, ShutdownChannel := Closed\<rparr>,
            tr' @ [Call_CryptoShutdown, Bot_StopSync])
     \<and> run e d tr [Do_Shutdown, Do_Shutdown]
         = (Panicked ''close of closed channel'',
            d\<lparr>Stopped := True, ShutdownChannel := Closed\<rparr>,
            tr @ [Call_CryptoShutdown, Bot_StopSync, Call_CryptoShutdown, Bot_StopSync])"
  by (simp add: Shutdown_def Let_def)

theorem Shutdown_first_then_panic_witness:
  "ShutdownChannel d0 = Open
   \<and> Shutdown env_ok d0 []
       = (Returned, d0\<lparr>Stopped := True, ShutdownChannel := Closed\<rparr>,
          [Call_CryptoShutdown, Bot_StopSync])
   \<and> Shutdown env_ok (d0\<lparr>Stopped := True, ShutdownChannel := Closed\<rparr>)
        [Call_CryptoShutdown, Bot_StopSync]
       = (Panicked ''close of closed channel'',
          d0\<lparr>Stopped := True, ShutdownChannel := Closed\<rparr>,
          [Call_CryptoShutdown, Bot_StopSync, Call_CryptoShutdown, Bot_StopSync])
   \<and> run env_ok d0 [] [Do_Shutdown, Do_Shutdown]
       = (Panicked ''close of closed channel'',
          d0\<lparr>Stopped := True, ShutdownChannel := Closed\<rparr>,
          [Call_CryptoShutdown, Bot_StopSync, Call_CryptoShutdown, Bot_StopSync])"
proof -
  have h: "ShutdownChannel d0 = Open"
    by (simp add: d0_def)
  from Shutdown_first_then_panic [OF h, where e = env_ok and tr = "[]"
      and tr' = "[Call_CryptoShutdown, Bot_StopSync]"]
  show ?thesis using h by simp
qed

subsection \<open>The result of SendStart\<close>

text \<open>
  Claim C5. \<open>SendStart\<close> returns true exactly when \<open>CreateRoom\<close> returned no error and
  the \<open>send\<close> of the welcome message, made after the token has been stored, returned no
  error. Whenever it returns false, the last thing it did was to write to the error
  log.
\<close>

theorem SendStart_ok_iff:
  "fst (SendStart e d tr user) =
     (case CreateRoom e d tr user of
        ((roomID, encrypted, err), tr1) \<Rightarrow>
          err = None
          \<and> fst (send e (d\<lparr>tokens := (tokens d)(genAuthToken e tr1 \<mapsto>
                                 pending roomID user ''en-us'' encrypted)\<rparr>)
                   (tr1 @ [Call_genAuthToken (genAuthToken e tr1)])
                   (welcome_content e d ''en-us'' (genAuthToken e tr1)) roomID) = None)
   \<and> (\<not> fst (SendStart e d tr user) \<longrightarrow>
         (\<exists>tr' msg. snd (snd (SendStart e d tr user)) = tr' @ [Err_Printf msg]))"
proof -
  have w: "welcome_content e (d\<lparr>tokens := t\<rparr>) l p = welcome_content e d l p" for t l p
    by (simp add: welcome_content_def lang_entry_def)
  obtain roomID encrypted err tr1 where cr: "CreateRoom e d tr user = ((roomID, encrypted, err), tr1)"
    by (metis prod.collapse)
  show ?thesis
  proof (cases err)
    case (Some er)
    with cr show ?thesis by (simp add: SendStart_not_created)
  next
    case None
    with cr have c: "CreateRoom e d tr user = ((roomID, encrypted, None), tr1)" by simp
    show ?thesis
      by (simp add: SendStart_created [OF c] c Let_def w split: prod.splits option.splits)
  qed
qed

theorem SendStart_ok_iff_witness:
  "fst (SendStart env_ok d0 [] ''@alice:hs'')
   \<and> \<not> fst (SendStart env_no_room d0 [] ''@alice:hs'')
   \<and> (\<exists>tr' msg. snd (snd (SendStart env_no_room d0 [] ''@alice:hs'')) = tr' @ [Err_Printf msg])
   \<and> \<not> fst (SendStart env_send_fails d0 [] ''@alice:hs'')
   \<and> (\<exists>tr' msg. snd (snd (SendStart env_send_fails d0 [] ''@alice:hs'')) = tr' @ [Err_Printf msg])"
proof -
  have 1: "fst (SendStart env_ok d0 [] ''@alice:hs'')"
    using SendStart_ok_iff [of env_ok d0 "[]" "''@alice:hs''"]
    by (simp add: CreateRoom_def CreateRoom_req_def send_def Let_def env_ok_def d0_def)
  have 2: "\<not> fst (SendStart env_no_room d0 [] ''@alice:hs'')"
    using SendStart_ok_iff [of env_no_room d0 "[]" "''@alice:hs''"]
    by (simp add: CreateRoom_def CreateRoom_req_def Let_def env_no_room_def env_ok_def)
  have 3: "\<not> fst (SendStart env_send_fails d0 [] ''@alice:hs'')"
    using SendStart_ok_iff [of env_send_fails d0 "[]" "''@alice:hs''"]
    by (simp add: CreateRoom_def CreateRoom_req_def send_def Let_def env_send_fails_def
          env_ok_def d0_def)
  from 1 2 3 SendStart_ok_iff [of env_no_room d0 "[]" "''@alice:hs''"]
    SendStart_ok_iff [of env_send_fails d0 "[]" "''@alice:hs''"]
  show ?thesis by blast
qed

subsection \<open>The command !lang\<close>

text \<open>
  The room \<open>!new:hs\<close> has no entry in \<open>app.storage.matrix\<close> (a room for which pairing is
  still pending, say). \<open>!lang fr\<close> in that room sets the cached language, and
  \<open>storeMatrixUsers\<close> is not called.
\<close>

theorem lang_without_binding_not_persisted:
  "map_of (storage_lang_Telegram (app d0)) ''fr'' = Some lang_fr
   \<and> languages (fst (snd (handleMessage env_ok d0 [] (evt_text 2000 ''!new:hs'' ''!lang fr''))))
       ''!new:hs'' = Some ''fr''
   \<and> snd (snd (handleMessage env_ok d0 [] (evt_text 2000 ''!new:hs'' ''!lang fr'')))
       = [Stdout_RECV (Content_Raw (evt_text 2000 ''!new:hs'' ''!lang fr''))]"
  by (simp add: eval_handleMessage d0_def app0_def)

text \<open>
  Claim C6, amended. Let an event pass the two filters and have the body
  \<open>!lang code\<close>, where \<open>code\<close> is a non-empty word without a space and a key of the
  language table. Then \<open>handleMessage\<close> returns and the cached language of the room is
  \<open>code\<close>. If \<open>app.storage.matrix\<close> has an entry under the room's ID, the language of
  that entry becomes \<open>code\<close> and \<open>storeMatrixUsers\<close> is called once, on the updated
  table, a failure being logged and nothing undone. If it has no such entry, nothing is
  stored and \<open>storeMatrixUsers\<close> is not called.
\<close>

theorem lang_known_sets_language:
  assumes "\<not> Timestamp evt < start d" and "Sender evt \<noteq> userID d"
    and "Content_Raw evt ''body'' = Some (DString (''!lang '' @ code))"
    and "code \<noteq> []" and "CHR '' '' \<notin> set code"
    and "map_of (storage_lang_Telegram (app d)) code = Some l"
  shows "languages (fst (snd (handleMessage e d tr evt))) (evt_RoomID evt) = Some code
    \<and> handleMessage e d tr evt =
       (case storage_matrix (app d) (evt_RoomID evt) of
          None \<Rightarrow>
            (Returned,
             d\<lparr>languages := (languages d)(evt_RoomID evt \<mapsto> code)\<rparr>,
             tr @ [Stdout_RECV (Content_Raw evt)])
        | Some u \<Rightarrow>
            (let matrix' = (storage_matrix (app d))(evt_RoomID evt \<mapsto> u\<lparr>Lang := code\<rparr>);
                 tr1 = tr @ [Stdout_RECV (Content_Raw evt)]
             in (Returned,
                 d\<lparr>languages := (languages d)(evt_RoomID evt \<mapsto> code),
                   app := (app d)\<lparr>storage_matrix := matrix'\<rparr>\<rparr>,
                 tr1 @ [Call_storeMatrixUsers matrix']
                   @ (case storeMatrixUsers e tr1 matrix' of
                        None \<Rightarrow> []
                      | Some er \<Rightarrow>
                          [Err_Printf (''Matrix: Failed to store Matrix users: '' @ er)]))))"
  using assms
  by (simp add: handleMessage_def Let_def Split_no_sep commandLang_def split: option.splits)

theorem lang_known_sets_language_witness:
  "languages (fst (snd (handleMessage env_ok d0 [] (evt_text 2000 ''!paired:hs'' ''!lang fr''))))
     ''!paired:hs'' = Some ''fr''
   \<and> storage_matrix (app (fst (snd (handleMessage env_ok d0 []
         (evt_text 2000 ''!paired:hs'' ''!lang fr''))))) ''!paired:hs''
       = Some (user_paired\<lparr>Lang := ''fr''\<rparr>)
   \<and> snd (snd (handleMessage env_ok d0 [] (evt_text 2000 ''!paired:hs'' ''!lang fr'')))
       = [Stdout_RECV (Content_Raw (evt_text 2000 ''!paired:hs'' ''!lang fr'')),
          Call_storeMatrixUsers
            ((storage_matrix (app d0))(''!paired:hs'' \<mapsto> user_paired\<lparr>Lang := ''fr''\<rparr>))]"
proof -
  let ?evt = "evt_text 2000 ''!paired:hs'' ''!lang fr''"
  have h1: "\<not> Timestamp ?evt < start d0" and h2: "Sender ?evt \<noteq> userID d0"
    and h3: "Content_Raw ?evt ''body'' = Some (DString (''!lang '' @ ''fr''))"
    and h4: "''fr'' \<noteq> []" and h5: "CHR '' '' \<notin> set ''fr''"
    and h6: "map_of (storage_lang_Telegram (app d0)) ''fr'' = Some lang_fr"
    by (simp_all add: evt_text_def d0_def app0_def)
  have b: "storage_matrix (app d0) ''!paired:hs'' = Some user_paired"
    and r: "evt_RoomID ?evt = ''!paired:hs''"
    by (simp_all add: evt_text_def d0_def app0_def)
  have s: "storeMatrixUsers env_ok t m = None" for t m
    by (simp add: env_ok_def)
  from lang_known_sets_language [OF h1 h2 h3 h4 h5 h6, of env_ok "[]"]
  show ?thesis
    by (simp add: b r s Let_def)
qed



subsection \<open>The filters and the body of an event\<close>

text \<open>
  Claim C8. An event whose timestamp is below the daemon's start time makes
  \<open>handleMessage\<close> return at once: whatever the content of the event, the daemon is
  unchanged and no action was performed, so no command was run.
\<close>

theorem handleMessage_before_start:
  "Timestamp evt < start d \<Longrightarrow> handleMessage e d tr evt = (Returned, d, tr)"
  by (simp add: handleMessage_def)

theorem handleMessage_before_start_witness:
  "Timestamp (evt_text 5 ''!paired:hs'' ''!lang fr'') < start d0
   \<and> handleMessage env_ok d0 [] (evt_text 5 ''!paired:hs'' ''!lang fr'') = (Returned, d0, [])"
proof -
  have h: "Timestamp (evt_text 5 ''!paired:hs'' ''!lang fr'') < start d0"
    by (simp add: evt_text_def d0_def)
  from handleMessage_before_start [OF h, of env_ok "[]"] h show ?thesis by simp
qed

text \<open>
  Claim C9. \<open>handleMessage\<close> panics exactly on the events that pass the timestamp
  filter and the sender filter and whose content has no string under \<open>body\<close> (no
  entry at all, or a value of another type); the panic is the one of the type
  assertion. On every other event it returns.
\<close>

theorem handleMessage_panics_iff:
  "fst (handleMessage e d tr evt) =
     (if \<not> Timestamp evt < start d \<and> Sender evt \<noteq> userID d
         \<and> (\<forall>s. Content_Raw evt ''body'' \<noteq> Some (DString s))
      then Panicked ''interface conversion'' else Returned)"
  using Split_not_Nil
  by (auto simp: handleMessage_def Let_def split: option.splits dyn.splits list.splits prod.splits)

theorem handleMessage_panics_iff_witness:
  "fst (handleMessage env_ok d0 [] evt_no_body) = Panicked ''interface conversion''
   \<and> fst (handleMessage env_ok d0 [] (evt_text 2000 ''!paired:hs'' ''hello'')) = Returned"
proof -
  have 1: "\<not> Timestamp evt_no_body < start d0 \<and> Sender evt_no_body \<noteq> userID d0
           \<and> (\<forall>s. Content_Raw evt_no_body ''body'' \<noteq> Some (DString s))"
    by (simp add: evt_no_body_def d0_def)
  have 2: "Content_Raw (evt_text 2000 ''!paired:hs'' ''hello'') ''body'' = Some (DString ''hello'')"
    by (simp add: evt_text_def)
  from handleMessage_panics_iff [of env_ok d0 "[]" evt_no_body]
    handleMessage_panics_iff [of env_ok d0 "[]" "evt_text 2000 ''!paired:hs'' ''hello''"]
  show ?thesis using 1 2 by simp
qed

subsection \<open>SendStart after a failed welcome message\<close>

text \<open>
  Claim C10. When \<open>CreateRoom\<close> succeeds and the \<open>send\<close> of the welcome message
  returns an error, \<open>SendStart\<close> returns false and the daemon it leaves behind still
  holds the pending token under the generated PIN: the store is not undone.
\<close>

theorem SendStart_keeps_token_on_failed_send:
  assumes "CreateRoom e d tr user = ((roomID, encrypted, None), tr1)"
    and "pin = genAuthToken e tr1"
    and "d1 = d\<lparr>tokens := (tokens d)(pin \<mapsto> pending roomID user ''en-us'' encrypted)\<rparr>"
    and "fst (send e d1 (tr1 @ [Call_genAuthToken pin]) (welcome_content e d1 ''en-us'' pin) roomID)
           = Some err"
  shows "fst (SendStart e d tr user) = False
         \<and> fst (snd (SendStart e d tr user)) = d1
         \<and> tokens (fst (snd (SendStart e d tr user))) pin
             = Some (pending roomID user ''en-us'' encrypted)"
proof -
  obtain r tr3 where
    sd: "send e d1 (tr1 @ [Call_genAuthToken pin]) (welcome_content e d1 ''en-us'' pin) roomID
           = (r, tr3)"
    by (metis prod.collapse)
  with assms(4) have r: "r = Some err" by simp
  have "SendStart e d tr user =
          (False, d1,
           tr3 @ [Err_Printf (''Matrix: Failed to send welcome message to '' @ dquote
                              @ user @ dquote @ '': '' @ err)])"
    using sd r assms(2,3) by (simp add: SendStart_created [OF assms(1)] Let_def)
  then show ?thesis using assms(3) by simp
qed

theorem SendStart_keeps_token_on_failed_send_witness:
  "CreateRoom env_send_fails d0 [] ''@alice:hs''
     = ((''!dm-@alice:hs'', False, None),
        [Bot_CreateRoom (CreateRoom_req d0 ''@alice:hs''),
         Call_EncryptRoom ''!dm-@alice:hs'' ''@alice:hs''])
   \<and> fst (SendStart env_send_fails d0 [] ''@alice:hs'') = False
   \<and> tokens d0 ''AB-CD-EF'' = None
   \<and> tokens (fst (snd (SendStart env_send_fails d0 [] ''@alice:hs''))) ''AB-CD-EF''
       = Some (pending ''!dm-@alice:hs'' ''@alice:hs'' ''en-us'' False)"
proof -
  let ?tr1 = "[Bot_CreateRoom (CreateRoom_req d0 ''@alice:hs''),
               Call_EncryptRoom ''!dm-@alice:hs'' ''@alice:hs'']"
  let ?d1 = "d0\<lparr>tokens := (tokens d0)(''AB-CD-EF'' \<mapsto>
                 pending ''!dm-@alice:hs'' ''@alice:hs'' ''en-us'' False)\<rparr>"
  have c: "CreateRoom env_send_fails d0 [] ''@alice:hs'' = ((''!dm-@alice:hs'', False, None), ?tr1)"
    by (simp add: CreateRoom_def CreateRoom_req_def Let_def env_send_fails_def env_ok_def)
  have p: "''AB-CD-EF'' = genAuthToken env_send_fails ?tr1"
    by (simp add: env_send_fails_def env_ok_def)
  have f: "fst (send env_send_fails ?d1 (?tr1 @ [Call_genAuthToken ''AB-CD-EF''])
                  (welcome_content env_send_fails ?d1 ''en-us'' ''AB-CD-EF'') ''!dm-@alice:hs'')
             = Some ''M_FORBIDDEN''"
    by (simp add: send_def env_send_fails_def env_ok_def d0_def)
  have t: "tokens d0 ''AB-CD-EF'' = None"
    by (simp add: d0_def)
  from SendStart_keeps_token_on_failed_send [OF c p refl f] c t
  show ?thesis by simp
qed

end
